theory Spec2Isabelle
  imports Main "HOL-Library.Word"
begin

section \<open>JavaScript values used by the component\<close>

subsection \<open>Strings\<close>

text \<open>
  A JavaScript string is a sequence of UTF-16 code units.  The literals of the component
  are ASCII apart from the bullet U+2022, which is one code unit.
\<close>

type_synonym js_string = "16 word list"

definition ascii :: "string \<Rightarrow> js_string" where
  "ascii = map of_char"



text \<open>
  The code units that \<^verbatim>\<open>String.prototype.trim\<close> strips and that \<^verbatim>\<open>\s\<close> matches:
  ECMAScript's WhiteSpace and LineTerminator productions.
\<close>

definition isWhiteSpace :: "16 word \<Rightarrow> bool" where
  "isWhiteSpace c =
     (c = 0x09 \<or> c = 0x0A \<or> c = 0x0B \<or> c = 0x0C \<or> c = 0x0D \<or> c = 0x20 \<or> c = 0xA0
      \<or> c = 0x1680 \<or> (0x2000 \<le> c \<and> c \<le> 0x200A) \<or> c = 0x2028 \<or> c = 0x2029
      \<or> c = 0x202F \<or> c = 0x205F \<or> c = 0x3000 \<or> c = 0xFEFF)"

definition trim :: "js_string \<Rightarrow> js_string" where
  "trim s = rev (dropWhile isWhiteSpace (rev (dropWhile isWhiteSpace s)))"





subsection \<open>The operator \<^verbatim>\<open>||\<close> at the types it is used at\<close>

text \<open>
  \<^verbatim>\<open>a || b\<close> is \<^verbatim>\<open>a\<close> when \<^verbatim>\<open>a\<close> is truthy and \<^verbatim>\<open>b\<close> otherwise.  An absent
  field (\<^verbatim>\<open>undefined\<close> or \<^verbatim>\<open>null\<close>, here \<open>None\<close>), the empty string, the number 0
  and \<^verbatim>\<open>false\<close> are falsy; every array is truthy.
\<close>

definition or_string :: "js_string option \<Rightarrow> js_string \<Rightarrow> js_string" where
  "or_string a b = (case a of None \<Rightarrow> b | Some s \<Rightarrow> if s = [] then b else s)"

definition or_absent :: "js_string option \<Rightarrow> js_string option" where
  "or_absent a = (case a of None \<Rightarrow> None | Some s \<Rightarrow> if s = [] then None else Some s)"

definition or_number :: "int option \<Rightarrow> int \<Rightarrow> int" where
  "or_number a b = (case a of None \<Rightarrow> b | Some n \<Rightarrow> if n = 0 then b else n)"

definition or_array :: "'a list option \<Rightarrow> 'a list \<Rightarrow> 'a list" where
  "or_array a b = (case a of None \<Rightarrow> b | Some xs \<Rightarrow> xs)"

definition or_boolean :: "bool option \<Rightarrow> bool \<Rightarrow> bool" where
  "or_boolean a b = (case a of None \<Rightarrow> b | Some x \<Rightarrow> if x then x else b)"

section \<open>The data of PresentationTab.tsx\<close>

record PresentationSlide =
  title :: js_string
  content :: "js_string list"

record PresentationData =
  title :: js_string
  slides :: "PresentationSlide list"
  total_slides :: int
  theme :: js_string

record PresentationRequest =
  session_id :: js_string
  topic :: "js_string option"
  max_slides :: int

text \<open>
  The response is whatever JSON the service sent, so every field that the component
  reads is optional here: \<open>None\<close> is a field that is absent or null in the payload.
  The component compares \<^verbatim>\<open>status\<close> with a literal and reads the other fields
  through \<^verbatim>\<open>||\<close> with a default; it never reads \<^verbatim>\<open>api_used\<close>.
\<close>

record PresentationResponse =
  status :: "js_string option"
  message :: "js_string option"
  presentation_url :: "js_string option"
  slides :: "PresentationSlide list option"
  slide_count :: "int option"
  api_used :: bool
  fallback_used :: "bool option"
  title :: "js_string option"

text \<open>
  What the \<^verbatim>\<open>catch\<close> block reads of a thrown value: \<^verbatim>\<open>error.response?.data?.detail\<close>
  (\<open>None\<close> when any link of the chain is missing) and \<^verbatim>\<open>error.message\<close>.
\<close>

record js_error =
  response_data_detail :: "js_string option"
  message :: "js_string option"

text \<open>
  The two awaits of the \<^verbatim>\<open>try\<close> block, \<^verbatim>\<open>fetch\<close> and \<^verbatim>\<open>response.json()\<close>, either
  deliver the parsed payload or throw: a network error, or a body that is not JSON.  A
  payload that is \<^verbatim>\<open>null\<close> throws as well, when its \<^verbatim>\<open>status\<close> is read.
\<close>

datatype fetch_result = Resolved PresentationResponse | Rejected js_error

text \<open>
  Modelled from the spec: the document session of the application context, which is
  declared outside this component.  It exposes whether a document is loaded and
  descriptive metadata (file name, word count, page count); these are the fields the
  component reads.
\<close>

record session =
  active :: bool
  file_info :: js_string
  word_count :: "int option"
  page_count :: "int option"

record form_data =
  topic :: js_string
  slideCount :: int

text \<open>The \<^verbatim>\<open>useState\<close> cells of the component.\<close>

record component =
  isGenerating :: bool
  presentation :: "PresentationData option"
  currentSlide :: int
  presentationUrl :: "js_string option"
  fallbackUsed :: bool
  formData :: form_data

definition initial :: component where
  "initial =
     \<lparr>isGenerating = False, presentation = None, currentSlide = 0, presentationUrl = None,
      fallbackUsed = False, formData = \<lparr>topic = [], slideCount = 8\<rparr>\<rparr>"

subsection \<open>Effects\<close>

text \<open>
  \<^verbatim>\<open>JSON.stringify\<close> of an object: its members in insertion order, without the members
  whose value is \<^verbatim>\<open>undefined\<close>.
\<close>

datatype json = JString js_string | JNumber int

type_synonym json_object = "(js_string \<times> json) list"

definition JSON_stringify :: "PresentationRequest \<Rightarrow> json_object" where
  "JSON_stringify r =
     [(ascii ''session_id'', JString (session_id r))]
     @ (case PresentationRequest.topic r of None \<Rightarrow> [] | Some t \<Rightarrow> [(ascii ''topic'', JString t)])
     @ [(ascii ''max_slides'', JNumber (max_slides r))]"

text \<open>
  What a handler does to the world outside the component's state, in the order it does
  it: a toast (with its duration option), the POST of a body to a URL, a line on the
  console, a file offered for download (name and text).
\<close>

datatype effect =
    ToastError js_string
  | ToastSuccess js_string "nat option"
  | Fetch js_string json_object
  | ConsoleError
  | Download js_string js_string

section \<open>Generation\<close>

definition requestData :: "form_data \<Rightarrow> PresentationRequest" where
  "requestData fd =
     \<lparr>session_id = ascii ''default'',
      PresentationRequest.topic = or_absent (Some (trim (form_data.topic fd))),
      max_slides = slideCount fd\<rparr>"

text \<open>
  \<^verbatim>\<open>generatePresentation\<close>, with the service as a function from the posted body to what
  the awaits deliver.  The result is the state once the handler has finished and the
  effects it had; \<open>isGenerating\<close> is true from the request to the \<^verbatim>\<open>finally\<close> block.
\<close>

definition generatePresentation ::
  "session \<Rightarrow> (json_object \<Rightarrow> fetch_result) \<Rightarrow> component \<Rightarrow> component \<times> effect list" where
  "generatePresentation sess service s =
     (if \<not> active sess then (s, [ToastError (ascii ''Please upload a PDF document first'')])
      else
        let s1 = s\<lparr>isGenerating := True\<rparr>;
            body = JSON_stringify (requestData (formData s));
            (s2, fx) =
              (case service body of
                 Resolved data \<Rightarrow>
                   if status data = Some (ascii ''success'') then
                     (s1\<lparr>presentation := Some
                           \<lparr>PresentationData.title =
                              or_string (PresentationResponse.title data) (ascii ''Generated Presentation''),
                            PresentationData.slides = or_array (PresentationResponse.slides data) [],
                            total_slides = or_number (slide_count data) 0,
                            theme = ascii ''professional''\<rparr>,
                         presentationUrl := or_absent (presentation_url data),
                         fallbackUsed := or_boolean (fallback_used data) False,
                         currentSlide := 0\<rparr>,
                      [if or_boolean (fallback_used data) False
                       then ToastSuccess (ascii ''Presentation created in basic mode (AI quota exceeded)'') (Some 6000)
                       else ToastSuccess (ascii ''Presentation generated successfully!'') None])
                   else
                     (s1, [ToastError (or_string (PresentationResponse.message data)
                                         (ascii ''Failed to generate presentation''))])
               | Rejected error \<Rightarrow>
                   (s1, [ToastError (or_string (response_data_detail error)
                                       (or_string (js_error.message error)
                                          (ascii ''Failed to generate presentation''))),
                         ConsoleError]))
        in (s2\<lparr>isGenerating := False\<rparr>, Fetch (ascii ''/api/generate-presentation'') body # fx))"

text \<open>The \<^verbatim>\<open>New Presentation\<close> button.\<close>

definition newPresentation :: "component \<Rightarrow> component" where
  "newPresentation s = s\<lparr>presentation := None, presentationUrl := None, fallbackUsed := False\<rparr>"

section \<open>Markdown export\<close>




section \<open>Slide navigation\<close>

text \<open>
  The click handlers of the Previous and Next buttons.  Both live in the branch of the
  markup that is rendered only while a presentation is stored, so the handler of Next
  has that presentation in scope.
\<close>

definition onPrevious :: "component \<Rightarrow> component" where
  "onPrevious s = s\<lparr>currentSlide := max 0 (currentSlide s - 1)\<rparr>"

definition onNext :: "PresentationData \<Rightarrow> component \<Rightarrow> component" where
  "onNext p s =
     s\<lparr>currentSlide := min (int (length (PresentationData.slides p)) - 1) (currentSlide s + 1)\<rparr>"

datatype nav = Previous | Next

fun handler :: "PresentationData \<Rightarrow> nav \<Rightarrow> component \<Rightarrow> component" where
  "handler p Previous s = onPrevious s"
| "handler p Next s = onNext p s"

text \<open>A sequence of calls of the two handlers, whether or not their buttons are enabled.\<close>

definition navigate :: "PresentationData \<Rightarrow> nav list \<Rightarrow> component \<Rightarrow> component" where
  "navigate p bs s = foldl (\<lambda>s' b. handler p b s') s bs"

text \<open>
  A click as the rendered page allows it: \<open>None\<close> when the button is not on the page
  (no active session, or no presentation) or is disabled.
\<close>

definition click :: "session \<Rightarrow> nav \<Rightarrow> component \<Rightarrow> component option" where
  "click sess b s =
     (if \<not> active sess then None
      else case presentation s of
        None \<Rightarrow> None
      | Some p \<Rightarrow>
          (case b of
             Previous \<Rightarrow> if currentSlide s = 0 then None else Some (onPrevious s)
           | Next \<Rightarrow>
               if currentSlide s = int (length (PresentationData.slides p)) - 1 then None
               else Some (onNext p s)))"

section \<open>The markdown format in the words of the specification\<close>




section \<open>The outcome of a generation call\<close>

text \<open>
  The call succeeds when the awaits deliver a payload whose \<^verbatim>\<open>status\<close> is the string
  \<^verbatim>\<open>success\<close>; it fails on every other payload and on every thrown value.
\<close>

definition succeeded :: "fetch_result \<Rightarrow> bool" where
  "succeeded r =
     (case r of Resolved data \<Rightarrow> status data = Some (ascii ''success'') | Rejected error \<Rightarrow> False)"

text \<open>The body that \<^verbatim>\<open>generatePresentation\<close> posts from a state.\<close>

definition postedBody :: "component \<Rightarrow> json_object" where
  "postedBody s = JSON_stringify (requestData (formData s))"

section \<open>Example data\<close>

definition loaded_session :: session where
  "loaded_session =
     \<lparr>active = True, file_info = ascii ''paper.pdf'', word_count = Some 1200, page_count = Some 4\<rparr>"

definition other_session :: session where
  "other_session =
     \<lparr>active = True, file_info = ascii ''thesis.pdf'', word_count = Some 80000, page_count = Some 210\<rparr>"

definition no_session :: session where
  "no_session = \<lparr>active = False, file_info = [], word_count = None, page_count = None\<rparr>"

text \<open>A service that answers every request with the same result.\<close>

definition answering :: "fetch_result \<Rightarrow> json_object \<Rightarrow> fetch_result" where
  "answering r body = r"

definition slide_intro :: PresentationSlide where
  "slide_intro = \<lparr>PresentationSlide.title = ascii ''Intro'', content = [ascii ''x'', ascii ''y'']\<rparr>"

definition slide_bare :: PresentationSlide where
  "slide_bare = \<lparr>PresentationSlide.title = ascii ''A'', content = []\<rparr>"

definition deck_of :: "PresentationSlide list \<Rightarrow> int \<Rightarrow> PresentationData" where
  "deck_of xs n =
     \<lparr>PresentationData.title = ascii ''T'', PresentationData.slides = xs, total_slides = n,
      theme = ascii ''professional''\<rparr>"

text \<open>The state of a component that shows a deck at a cursor.\<close>

definition showing :: "PresentationData \<Rightarrow> int \<Rightarrow> component" where
  "showing p i = initial\<lparr>presentation := Some p, currentSlide := i\<rparr>"

definition response_of ::
  "string \<Rightarrow> js_string option \<Rightarrow> PresentationSlide list option \<Rightarrow> int option
   \<Rightarrow> js_string option \<Rightarrow> PresentationResponse" where
  "response_of st msg xs n t =
     \<lparr>status = Some (ascii st), message = msg, presentation_url = None,
      PresentationResponse.slides = xs, slide_count = n, api_used = True,
      fallback_used = Some False, PresentationResponse.title = t\<rparr>"


definition quota_exceeded :: PresentationResponse where
  "quota_exceeded = response_of ''error'' (Some (ascii ''quota exceeded'')) None None None"

definition network_down :: js_error where
  "network_down = \<lparr>response_data_detail = None, message = Some (ascii ''Failed to fetch'')\<rparr>"

section \<open>Lemmas about the model\<close>

subsection \<open>Trimming\<close>


subsection \<open>The four paths through the generation handler\<close>

lemma generate_inactive:
  "\<not> active sess \<Longrightarrow>
   generatePresentation sess service s =
     (s, [ToastError (ascii ''Please upload a PDF document first'')])"
  by (simp add: generatePresentation_def)

lemma generate_success:
  assumes "active sess" and "service (postedBody s) = Resolved data"
    and "status data = Some (ascii ''success'')"
  shows "generatePresentation sess service s =
     (s\<lparr>isGenerating := False,
        presentation := Some
          \<lparr>PresentationData.title =
             or_string (PresentationResponse.title data) (ascii ''Generated Presentation''),
           PresentationData.slides = or_array (PresentationResponse.slides data) [],
           total_slides = or_number (slide_count data) 0,
           theme = ascii ''professional''\<rparr>,
        presentationUrl := or_absent (presentation_url data),
        fallbackUsed := or_boolean (fallback_used data) False,
        currentSlide := 0\<rparr>,
      [Fetch (ascii ''/api/generate-presentation'') (postedBody s),
       if or_boolean (fallback_used data) False
       then ToastSuccess (ascii ''Presentation created in basic mode (AI quota exceeded)'') (Some 6000)
       else ToastSuccess (ascii ''Presentation generated successfully!'') None])"
  using assms by (simp add: generatePresentation_def postedBody_def Let_def)

lemma generate_failure_status:
  assumes "active sess" and "service (postedBody s) = Resolved data"
    and "status data \<noteq> Some (ascii ''success'')"
  shows "generatePresentation sess service s =
     (s\<lparr>isGenerating := False\<rparr>,
      [Fetch (ascii ''/api/generate-presentation'') (postedBody s),
       ToastError (or_string (PresentationResponse.message data)
                     (ascii ''Failed to generate presentation''))])"
  using assms by (simp add: generatePresentation_def postedBody_def Let_def)

lemma generate_rejected:
  assumes "active sess" and "service (postedBody s) = Rejected error"
  shows "generatePresentation sess service s =
     (s\<lparr>isGenerating := False\<rparr>,
      [Fetch (ascii ''/api/generate-presentation'') (postedBody s),
       ToastError (or_string (response_data_detail error)
                     (or_string (js_error.message error)
                        (ascii ''Failed to generate presentation''))),
       ConsoleError])"
  using assms by (simp add: generatePresentation_def postedBody_def Let_def)

lemma generate_failed:
  assumes "active sess" and "\<not> succeeded (service (postedBody s))"
  shows "fst (generatePresentation sess service s) = s\<lparr>isGenerating := False\<rparr>"
proof (cases "service (postedBody s)")
  case (Resolved data)
  with assms have "status data \<noteq> Some (ascii ''success'')"
    by (simp add: succeeded_def)
  with assms Resolved show ?thesis
    by (simp add: generate_failure_status)
next
  case (Rejected error)
  with assms show ?thesis
    by (simp add: generate_rejected)
qed

lemma generate_fetch_first:
  assumes "active sess"
  shows "\<exists>fx. snd (generatePresentation sess service s) =
           Fetch (ascii ''/api/generate-presentation'') (postedBody s) # fx
           \<and> (\<forall>u b. Fetch u b \<notin> set fx)"
proof (cases "service (postedBody s)")
  case (Resolved data)
  show ?thesis
  proof (cases "status data = Some (ascii ''success'')")
    case True
    with assms Resolved show ?thesis
      by (simp add: generate_success)
  next
    case False
    with assms Resolved show ?thesis
      by (simp add: generate_failure_status)
  qed
next
  case (Rejected error)
  with assms show ?thesis
    by (simp add: generate_rejected)
qed

subsection \<open>The handlers keep a cursor within a deck that has slides\<close>

lemma handler_in_range:
  assumes "PresentationData.slides p \<noteq> []"
    and "0 \<le> currentSlide s"
    and "currentSlide s \<le> int (length (PresentationData.slides p)) - 1"
  shows "0 \<le> currentSlide (handler p b s)
       \<and> currentSlide (handler p b s) \<le> int (length (PresentationData.slides p)) - 1"
proof (cases b)
  case Previous
  with assms show ?thesis by (simp add: onPrevious_def)
next
  case Next
  from assms(1) have "0 < length (PresentationData.slides p)" by simp
  with Next assms show ?thesis by (simp add: onNext_def)
qed

lemma navigate_in_range:
  assumes "PresentationData.slides p \<noteq> []"
  shows "0 \<le> currentSlide s \<Longrightarrow> currentSlide s \<le> int (length (PresentationData.slides p)) - 1
    \<Longrightarrow> 0 \<le> currentSlide (navigate p bs s)
       \<and> currentSlide (navigate p bs s) \<le> int (length (PresentationData.slides p)) - 1"
proof (induction bs arbitrary: s)
  case Nil
  then show ?case by (simp add: navigate_def)
next
  case (Cons b bs)
  from handler_in_range [OF assms Cons.prems]
  have "0 \<le> currentSlide (navigate p bs (handler p b s))
      \<and> currentSlide (navigate p bs (handler p b s)) \<le> int (length (PresentationData.slides p)) - 1"
    by (intro Cons.IH) simp_all
  then show ?case by (simp add: navigate_def)
qed

subsection \<open>The template literal, line by line\<close>




section \<open>The claims\<close>

subsection \<open>C1: navigation on every deck\<close>

text \<open>
  What the two handlers do achieve.  For a deck with at least one slide and a cursor within
  \<open>[0, length slides - 1]\<close>, every sequence of calls of the Previous and Next handlers
  leaves the cursor within \<open>[0, length slides - 1]\<close>; the Previous handler at cursor 0
  and the Next handler at the last slide leave the state as it is; and while no
  presentation is stored, no navigation button is on the page.
\<close>

lemma handlers_clamp_with_slides:
  assumes "PresentationData.slides p \<noteq> []"
    and "0 \<le> currentSlide s"
    and "currentSlide s \<le> int (length (PresentationData.slides p)) - 1"
  shows "0 \<le> currentSlide (navigate p bs s)
       \<and> currentSlide (navigate p bs s) \<le> int (length (PresentationData.slides p)) - 1
       \<and> (currentSlide s = 0 \<longrightarrow> onPrevious s = s)
       \<and> (currentSlide s = int (length (PresentationData.slides p)) - 1 \<longrightarrow> onNext p s = s)
       \<and> (presentation s' = None \<longrightarrow> click sess b s' = None)"
proof -
  have "currentSlide s = 0 \<longrightarrow> onPrevious s = s"
    by (simp add: onPrevious_def)
  moreover have "currentSlide s = int (length (PresentationData.slides p)) - 1 \<longrightarrow> onNext p s = s"
    by (simp add: onNext_def)
  moreover have "presentation s' = None \<longrightarrow> click sess b s' = None"
    by (simp add: click_def)
  ultimately show ?thesis
    using navigate_in_range [OF assms] by simp
qed

text \<open>
  When the deck's slide count is the number of its slides, this is the interval
  \<open>[0, total_slides - 1]\<close>.
\<close>

lemma handlers_clamp_with_counted_slides:
  assumes "PresentationData.slides p \<noteq> []"
    and "total_slides p = int (length (PresentationData.slides p))"
    and "0 \<le> currentSlide s"
    and "currentSlide s \<le> total_slides p - 1"
  shows "0 \<le> currentSlide (navigate p bs s) \<and> currentSlide (navigate p bs s) \<le> total_slides p - 1"
  using navigate_in_range [of p s bs] assms by simp

text \<open>
  The scenario of a deck of six slides at cursor 5 that receives Next three times: the
  cursor remains 5.
\<close>

lemma six_slides_at_last:
  "currentSlide (navigate (deck_of (replicate 6 slide_intro) 6) [Next, Next, Next]
        (showing (deck_of (replicate 6 slide_intro) 6) 5)) = 5
   \<and> onNext (deck_of (replicate 6 slide_intro) 6) (showing (deck_of (replicate 6 slide_intro) 6) 5)
       = showing (deck_of (replicate 6 slide_intro) 6) 5
   \<and> onPrevious (showing (deck_of (replicate 6 slide_intro) 6) 0)
       = showing (deck_of (replicate 6 slide_intro) 6) 0
   \<and> click loaded_session Next initial = None"
  by (simp add: deck_of_def showing_def initial_def navigate_def onNext_def onPrevious_def click_def)

text \<open>
  C1.  The claim is that on every deck, a deck without slides included, no sequence of
  Previous and Next calls moves the cursor outside the slides, and that on a deck without
  slides every navigation call leaves the cursor where it is.  The code misses the deck
  without slides.  The successful response \<^verbatim>\<open>{status: "success", slide_count: 0, slides: []}\<close>
  stores a deck without slides at cursor 0.  On the page that shows it the Next button is
  enabled, since the cursor 0 is not \<open>length slides - 1 = -1\<close>, and its handler sets the
  cursor to \<open>min (-1) 1 = -1\<close>: the call is not a no-op and the cursor is negative.  The
  Previous handler, on the same state, keeps the cursor at 0, and from \<open>-1\<close> it brings the
  cursor back to 0.
\<close>

theorem navigation_empty_deck:
  "fst (generatePresentation loaded_session
          (answering (Resolved (response_of ''success'' None (Some []) (Some 0) (Some (ascii ''T'')))))
          initial)
     = showing (deck_of [] 0) 0
   \<and> click loaded_session Next (showing (deck_of [] 0) 0) = Some (showing (deck_of [] 0) (- 1))
   \<and> onNext (deck_of [] 0) (showing (deck_of [] 0) 0) \<noteq> showing (deck_of [] 0) 0
   \<and> currentSlide (navigate (deck_of [] 0) [Next] (showing (deck_of [] 0) 0)) = - 1
   \<and> \<not> (0 \<le> currentSlide (navigate (deck_of [] 0) [Next] (showing (deck_of [] 0) 0)))
   \<and> onPrevious (showing (deck_of [] 0) 0) = showing (deck_of [] 0) 0
   \<and> onPrevious (showing (deck_of [] 0) (- 1)) = showing (deck_of [] 0) 0"
proof -
  have 1: "fst (generatePresentation loaded_session
          (answering (Resolved (response_of ''success'' None (Some []) (Some 0) (Some (ascii ''T'')))))
          initial)
     = showing (deck_of [] 0) 0"
    by (simp add: generatePresentation_def loaded_session_def answering_def response_of_def
        showing_def deck_of_def initial_def or_string_def or_array_def or_number_def
        or_absent_def or_boolean_def Let_def ascii_def)
  have 2: "click loaded_session Next (showing (deck_of [] 0) 0) = Some (showing (deck_of [] 0) (- 1))"
    by (simp add: click_def loaded_session_def showing_def deck_of_def onNext_def)
  have 3: "onNext (deck_of [] 0) (showing (deck_of [] 0) 0) = showing (deck_of [] 0) (- 1)"
    by (simp add: showing_def deck_of_def onNext_def)
  have 4: "showing (deck_of [] 0) (- 1) \<noteq> showing (deck_of [] 0) 0"
  proof
    assume "showing (deck_of [] 0) (- 1) = showing (deck_of [] 0) 0"
    then have "currentSlide (showing (deck_of [] 0) (- 1)) = currentSlide (showing (deck_of [] 0) 0)"
      by simp
    then show False
      by (simp add: showing_def)
  qed
  have 5: "currentSlide (navigate (deck_of [] 0) [Next] (showing (deck_of [] 0) 0)) = - 1"
    by (simp add: navigate_def 3) (simp add: showing_def)
  have 6: "onPrevious (showing (deck_of [] 0) 0) = showing (deck_of [] 0) 0"
    "onPrevious (showing (deck_of [] 0) (- 1)) = showing (deck_of [] 0) 0"
    by (simp_all add: showing_def onPrevious_def)
  from 1 2 3 4 5 6 show ?thesis
    by simp
qed

subsection \<open>C2: the markdown export\<close>




subsection \<open>C3: a failed generation leaves the store unchanged\<close>

text \<open>
  C3.  When the generation call fails (a payload whose status is not \<^verbatim>\<open>success\<close>, or
  a value thrown by the request or by the parsing of the response), the stored
  presentation, the download URL and the fallback flag keep their prior values, and so
  does the cursor: nothing is stored, and a presentation that was there is still there.
\<close>

theorem failed_generation_keeps_store:
  assumes "\<not> succeeded (service (postedBody s))"
  shows "presentation (fst (generatePresentation sess service s)) = presentation s
       \<and> presentationUrl (fst (generatePresentation sess service s)) = presentationUrl s
       \<and> fallbackUsed (fst (generatePresentation sess service s)) = fallbackUsed s
       \<and> currentSlide (fst (generatePresentation sess service s)) = currentSlide s"
proof (cases "active sess")
  case True
  from True assms have "fst (generatePresentation sess service s) = s\<lparr>isGenerating := False\<rparr>"
    by (rule generate_failed)
  then show ?thesis by simp
next
  case False
  then show ?thesis by (simp add: generate_inactive)
qed

text \<open>
  The response \<^verbatim>\<open>{status: "error", message: "quota exceeded"}\<close> leaves an empty store
  empty, and a network error during a later generation preserves the deck and the cursor.
\<close>

theorem failed_generation_keeps_store_witness:
  "\<not> succeeded (answering (Resolved quota_exceeded) (postedBody initial))
   \<and> presentation (fst (generatePresentation loaded_session (answering (Resolved quota_exceeded)) initial)) = None
   \<and> \<not> succeeded (answering (Rejected network_down)
         (postedBody (showing (deck_of [slide_intro, slide_bare] 2) 1)))
   \<and> presentation (fst (generatePresentation loaded_session (answering (Rejected network_down))
         (showing (deck_of [slide_intro, slide_bare] 2) 1)))
       = Some (deck_of [slide_intro, slide_bare] 2)
   \<and> currentSlide (fst (generatePresentation loaded_session (answering (Rejected network_down))
         (showing (deck_of [slide_intro, slide_bare] 2) 1))) = 1"
proof -
  have a: "\<not> succeeded (answering (Resolved quota_exceeded) (postedBody initial))"
    by (simp add: succeeded_def answering_def quota_exceeded_def response_of_def ascii_def)
  have b: "\<not> succeeded (answering (Rejected network_down)
         (postedBody (showing (deck_of [slide_intro, slide_bare] 2) 1)))"
    by (simp add: succeeded_def answering_def)
  from failed_generation_keeps_store [of "answering (Resolved quota_exceeded)" initial loaded_session]
    failed_generation_keeps_store [of "answering (Rejected network_down)"
      "showing (deck_of [slide_intro, slide_bare] 2) 1" loaded_session] a b
  show ?thesis
    by (simp add: initial_def showing_def)
qed

subsection \<open>C4: the stored slide count\<close>

text \<open>
  C4, as the code has it.  On success the stored deck takes its slide count from the
  response's \<^verbatim>\<open>slide_count\<close> (0 when absent) and its slides from the response's
  \<^verbatim>\<open>slides\<close> (none when absent), each on its own; the count equals the number of the
  slides exactly when the response's count equals the number of the slides it lists.
\<close>

theorem stored_count_is_reported_count:
  assumes "active sess" and "service (postedBody s) = Resolved data"
    and "status data = Some (ascii ''success'')"
  shows "\<exists>deck. presentation (fst (generatePresentation sess service s)) = Some deck
     \<and> total_slides deck = (case slide_count data of None \<Rightarrow> 0 | Some n \<Rightarrow> n)
     \<and> PresentationData.slides deck =
         (case PresentationResponse.slides data of None \<Rightarrow> [] | Some xs \<Rightarrow> xs)
     \<and> (total_slides deck = int (length (PresentationData.slides deck)) \<longleftrightarrow>
          (case slide_count data of None \<Rightarrow> 0 | Some n \<Rightarrow> n) =
          int (length (case PresentationResponse.slides data of None \<Rightarrow> [] | Some xs \<Rightarrow> xs)))"
proof -
  have "or_number (slide_count data) 0 = (case slide_count data of None \<Rightarrow> 0 | Some n \<Rightarrow> n)"
    by (simp add: or_number_def split: option.split)
  moreover have "or_array (PresentationResponse.slides data) [] =
      (case PresentationResponse.slides data of None \<Rightarrow> [] | Some xs \<Rightarrow> xs)"
    by (simp add: or_array_def)
  ultimately show ?thesis
    using assms by (simp add: generate_success)
qed

text \<open>
  A response that lists two slides and reports the count 2.
\<close>

theorem stored_count_is_reported_count_witness:
  "active loaded_session
   \<and> answering (Resolved (response_of ''success'' None (Some [slide_intro, slide_bare]) (Some 2) None))
        (postedBody initial)
       = Resolved (response_of ''success'' None (Some [slide_intro, slide_bare]) (Some 2) None)
   \<and> status (response_of ''success'' None (Some [slide_intro, slide_bare]) (Some 2) None)
       = Some (ascii ''success'')
   \<and> map_option total_slides (presentation (fst (generatePresentation loaded_session
        (answering (Resolved (response_of ''success'' None (Some [slide_intro, slide_bare]) (Some 2) None)))
        initial))) = Some 2
   \<and> map_option PresentationData.slides (presentation (fst (generatePresentation loaded_session
        (answering (Resolved (response_of ''success'' None (Some [slide_intro, slide_bare]) (Some 2) None)))
        initial))) = Some [slide_intro, slide_bare]"
proof -
  have a: "active loaded_session"
    by (simp add: loaded_session_def)
  have b: "answering (Resolved (response_of ''success'' None (Some [slide_intro, slide_bare]) (Some 2) None))
        (postedBody initial)
       = Resolved (response_of ''success'' None (Some [slide_intro, slide_bare]) (Some 2) None)"
    by (simp add: answering_def)
  have c: "status (response_of ''success'' None (Some [slide_intro, slide_bare]) (Some 2) None)
       = Some (ascii ''success'')"
    by (simp add: response_of_def)
  from stored_count_is_reported_count [of loaded_session
      "answering (Resolved (response_of ''success'' None (Some [slide_intro, slide_bare]) (Some 2) None))"
      initial "response_of ''success'' None (Some [slide_intro, slide_bare]) (Some 2) None"] a b c
  show ?thesis
    by (auto simp: response_of_def)
qed

text \<open>
  A response that lists one slide and reports the count 5 is stored as it is: a deck with
  one slide and \<open>total_slides = 5\<close>.
\<close>

theorem stored_count_counterexample:
  "map_option PresentationData.slides (presentation (fst (generatePresentation loaded_session
        (answering (Resolved (response_of ''success'' None (Some [slide_intro]) (Some 5) None)))
        initial))) = Some [slide_intro]
   \<and> map_option total_slides (presentation (fst (generatePresentation loaded_session
        (answering (Resolved (response_of ''success'' None (Some [slide_intro]) (Some 5) None)))
        initial))) = Some 5
   \<and> (5 :: int) \<noteq> int (length [slide_intro])"
  by (simp add: generatePresentation_def loaded_session_def answering_def response_of_def
      or_array_def or_number_def Let_def)

subsection \<open>C5: the request carries the slide count and the trimmed topic\<close>



subsection \<open>C6: when a generation call fails, and with which message\<close>

text \<open>
  C6, as the code has it.  With an active session, the handler shows an error toast
  exactly when the call did not succeed: the payload's status is not \<^verbatim>\<open>success\<close>, or a
  value was thrown.  The message is the first of these that is present and not empty,
  unchanged: for a payload, its \<^verbatim>\<open>message\<close>; for a thrown value, the detail of the
  service's response and then the thrown value's own message.  When none of them is, the
  message is the literal \<^verbatim>\<open>Failed to generate presentation\<close>.
\<close>

theorem failure_outcome_and_message:
  assumes "active sess"
  shows "((\<exists>m. ToastError m \<in> set (snd (generatePresentation sess service s)))
            \<longleftrightarrow> \<not> succeeded (service (postedBody s)))
   \<and> (service (postedBody s) = Resolved data \<and> status data \<noteq> Some (ascii ''success'')
        \<and> PresentationResponse.message data = Some m \<and> m \<noteq> [] \<longrightarrow>
      snd (generatePresentation sess service s) =
        [Fetch (ascii ''/api/generate-presentation'') (postedBody s), ToastError m])
   \<and> (service (postedBody s) = Resolved data \<and> status data \<noteq> Some (ascii ''success'')
        \<and> (PresentationResponse.message data = None \<or> PresentationResponse.message data = Some []) \<longrightarrow>
      snd (generatePresentation sess service s) =
        [Fetch (ascii ''/api/generate-presentation'') (postedBody s),
         ToastError (ascii ''Failed to generate presentation'')])
   \<and> (service (postedBody s) = Rejected error
        \<and> response_data_detail error = Some d \<and> d \<noteq> [] \<longrightarrow>
      snd (generatePresentation sess service s) =
        [Fetch (ascii ''/api/generate-presentation'') (postedBody s), ToastError d, ConsoleError])
   \<and> (service (postedBody s) = Rejected error
        \<and> (response_data_detail error = None \<or> response_data_detail error = Some [])
        \<and> js_error.message error = Some m \<and> m \<noteq> [] \<longrightarrow>
      snd (generatePresentation sess service s) =
        [Fetch (ascii ''/api/generate-presentation'') (postedBody s), ToastError m, ConsoleError])
   \<and> (service (postedBody s) = Rejected error
        \<and> (response_data_detail error = None \<or> response_data_detail error = Some [])
        \<and> (js_error.message error = None \<or> js_error.message error = Some []) \<longrightarrow>
      snd (generatePresentation sess service s) =
        [Fetch (ascii ''/api/generate-presentation'') (postedBody s),
         ToastError (ascii ''Failed to generate presentation''), ConsoleError])"
proof -
  have 1: "(\<exists>m. ToastError m \<in> set (snd (generatePresentation sess service s)))
            \<longleftrightarrow> \<not> succeeded (service (postedBody s))"
  proof (cases "service (postedBody s)")
    case (Resolved data)
    show ?thesis
    proof (cases "status data = Some (ascii ''success'')")
      case True
      with assms Resolved show ?thesis
        by (simp add: generate_success succeeded_def)
    next
      case False
      with assms Resolved show ?thesis
        by (simp add: generate_failure_status succeeded_def)
    qed
  next
    case (Rejected error)
    with assms show ?thesis
      by (simp add: generate_rejected succeeded_def)
  qed
  have 2: "snd (generatePresentation sess service s) =
        [Fetch (ascii ''/api/generate-presentation'') (postedBody s), ToastError m]"
    if "service (postedBody s) = Resolved data" "status data \<noteq> Some (ascii ''success'')"
      "PresentationResponse.message data = Some m" "m \<noteq> []"
    using assms that by (simp add: generate_failure_status or_string_def)
  have 3: "snd (generatePresentation sess service s) =
        [Fetch (ascii ''/api/generate-presentation'') (postedBody s),
         ToastError (ascii ''Failed to generate presentation'')]"
    if "service (postedBody s) = Resolved data" "status data \<noteq> Some (ascii ''success'')"
      "PresentationResponse.message data = None \<or> PresentationResponse.message data = Some []"
    using assms that by (auto simp: generate_failure_status or_string_def)
  have 4: "snd (generatePresentation sess service s) =
        [Fetch (ascii ''/api/generate-presentation'') (postedBody s), ToastError d, ConsoleError]"
    if "service (postedBody s) = Rejected error" "response_data_detail error = Some d" "d \<noteq> []"
    using assms that by (simp add: generate_rejected or_string_def)
  have 5: "snd (generatePresentation sess service s) =
        [Fetch (ascii ''/api/generate-presentation'') (postedBody s), ToastError m, ConsoleError]"
    if "service (postedBody s) = Rejected error"
      "response_data_detail error = None \<or> response_data_detail error = Some []"
      "js_error.message error = Some m" "m \<noteq> []"
    using assms that by (auto simp: generate_rejected or_string_def)
  have 6: "snd (generatePresentation sess service s) =
        [Fetch (ascii ''/api/generate-presentation'') (postedBody s),
         ToastError (ascii ''Failed to generate presentation''), ConsoleError]"
    if "service (postedBody s) = Rejected error"
      "response_data_detail error = None \<or> response_data_detail error = Some []"
      "js_error.message error = None \<or> js_error.message error = Some []"
    using assms that by (auto simp: generate_rejected or_string_def)
  from 1 2 3 4 5 6 show ?thesis by blast
qed

text \<open>
  The response \<^verbatim>\<open>{status: "error", message: "quota exceeded"}\<close> is reported as
  \<^verbatim>\<open>quota exceeded\<close>, an error response without a message by the generic message, and a
  network error by its own message.
\<close>

theorem failure_outcome_and_message_witness:
  "active loaded_session
   \<and> \<not> succeeded (answering (Resolved quota_exceeded) (postedBody initial))
   \<and> snd (generatePresentation loaded_session (answering (Resolved quota_exceeded)) initial) =
       [Fetch (ascii ''/api/generate-presentation'') (postedBody initial),
        ToastError (ascii ''quota exceeded'')]
   \<and> snd (generatePresentation loaded_session
         (answering (Resolved (response_of ''error'' None None None None))) initial) =
       [Fetch (ascii ''/api/generate-presentation'') (postedBody initial),
        ToastError (ascii ''Failed to generate presentation'')]
   \<and> snd (generatePresentation loaded_session (answering (Rejected network_down)) initial) =
       [Fetch (ascii ''/api/generate-presentation'') (postedBody initial),
        ToastError (ascii ''Failed to fetch''), ConsoleError]"
proof -
  have a: "active loaded_session"
    by (simp add: loaded_session_def)
  have q: "status quota_exceeded \<noteq> Some (ascii ''success'')"
    "PresentationResponse.message quota_exceeded = Some (ascii ''quota exceeded'')"
    "ascii ''quota exceeded'' \<noteq> []"
    by (simp_all add: quota_exceeded_def response_of_def ascii_def)
  have e: "status (response_of ''error'' None None None None) \<noteq> Some (ascii ''success'')"
    "PresentationResponse.message (response_of ''error'' None None None None) = None"
    by (simp_all add: response_of_def ascii_def)
  have n: "response_data_detail network_down = None"
    "js_error.message network_down = Some (ascii ''Failed to fetch'')"
    "ascii ''Failed to fetch'' \<noteq> []"
    by (simp_all add: network_down_def ascii_def)
  from failure_outcome_and_message [OF a, of "answering (Resolved quota_exceeded)" initial
      quota_exceeded "ascii ''quota exceeded''"] q
  have 1: "\<not> succeeded (answering (Resolved quota_exceeded) (postedBody initial))"
    and 2: "snd (generatePresentation loaded_session (answering (Resolved quota_exceeded)) initial) =
       [Fetch (ascii ''/api/generate-presentation'') (postedBody initial),
        ToastError (ascii ''quota exceeded'')]"
    by (simp_all add: answering_def succeeded_def)
  from failure_outcome_and_message [OF a,
      of "answering (Resolved (response_of ''error'' None None None None))" initial
      "response_of ''error'' None None None None"] e
  have 3: "snd (generatePresentation loaded_session
         (answering (Resolved (response_of ''error'' None None None None))) initial) =
       [Fetch (ascii ''/api/generate-presentation'') (postedBody initial),
        ToastError (ascii ''Failed to generate presentation'')]"
    by (simp add: answering_def)
  from failure_outcome_and_message [OF a, of "answering (Rejected network_down)" initial
      _ "ascii ''Failed to fetch''" network_down] n
  have 4: "snd (generatePresentation loaded_session (answering (Rejected network_down)) initial) =
       [Fetch (ascii ''/api/generate-presentation'') (postedBody initial),
        ToastError (ascii ''Failed to fetch''), ConsoleError]"
    by (simp add: answering_def)
  from a 1 2 3 4 show ?thesis by blast
qed

text \<open>
  A network error carries no diagnostic of the service, and yet the message shown is not
  the generic one: it is the message of the thrown value.
\<close>

theorem failure_message_counterexample:
  "response_data_detail network_down = None
   \<and> snd (generatePresentation loaded_session (answering (Rejected network_down)) initial) =
       [Fetch (ascii ''/api/generate-presentation'') (postedBody initial),
        ToastError (ascii ''Failed to fetch''), ConsoleError]
   \<and> ascii ''Failed to fetch'' \<noteq> ascii ''Failed to generate presentation''"
  by (simp add: generatePresentation_def loaded_session_def answering_def network_down_def
      postedBody_def or_string_def Let_def ascii_def)

subsection \<open>C7: the deck built on success\<close>

text \<open>
  C7, as the code has it.  On success the stored deck has the response's title when that
  is present and not empty, and the literal \<^verbatim>\<open>Generated Presentation\<close> when the title
  is absent or empty; the response's slides, or none when absent; the response's slide
  count, or 0 when absent; and the theme \<^verbatim>\<open>professional\<close>.  The download URL is the
  response's when that is present and not empty and is omitted otherwise, and the fallback
  flag is the response's, or false when absent.
\<close>

theorem success_builds_deck:
  assumes "active sess" and "service (postedBody s) = Resolved data"
    and "status data = Some (ascii ''success'')"
  shows "\<exists>deck. presentation (fst (generatePresentation sess service s)) = Some deck
     \<and> (PresentationResponse.title data = Some t \<and> t \<noteq> [] \<longrightarrow> PresentationData.title deck = t)
     \<and> (PresentationResponse.title data = None \<or> PresentationResponse.title data = Some [] \<longrightarrow>
          PresentationData.title deck = ascii ''Generated Presentation'')
     \<and> (PresentationResponse.slides data = Some xs \<longrightarrow> PresentationData.slides deck = xs)
     \<and> (PresentationResponse.slides data = None \<longrightarrow> PresentationData.slides deck = [])
     \<and> (slide_count data = Some n \<longrightarrow> total_slides deck = n)
     \<and> (slide_count data = None \<longrightarrow> total_slides deck = 0)
     \<and> theme deck = ascii ''professional''
     \<and> (presentation_url data = Some u \<and> u \<noteq> [] \<longrightarrow>
          presentationUrl (fst (generatePresentation sess service s)) = Some u)
     \<and> (presentation_url data = None \<or> presentation_url data = Some [] \<longrightarrow>
          presentationUrl (fst (generatePresentation sess service s)) = None)
     \<and> (fallback_used data = Some b \<longrightarrow>
          fallbackUsed (fst (generatePresentation sess service s)) = b)
     \<and> (fallback_used data = None \<longrightarrow>
          \<not> fallbackUsed (fst (generatePresentation sess service s)))"
proof -
  let ?deck = "\<lparr>PresentationData.title =
             or_string (PresentationResponse.title data) (ascii ''Generated Presentation''),
           PresentationData.slides = or_array (PresentationResponse.slides data) [],
           total_slides = or_number (slide_count data) 0,
           theme = ascii ''professional''\<rparr>"
  from assms have p: "presentation (fst (generatePresentation sess service s)) = Some ?deck"
    and u: "presentationUrl (fst (generatePresentation sess service s)) =
        or_absent (presentation_url data)"
    and f: "fallbackUsed (fst (generatePresentation sess service s)) =
        or_boolean (fallback_used data) False"
    by (simp_all add: generate_success)
  have 1: "PresentationResponse.title data = Some t \<and> t \<noteq> [] \<longrightarrow> PresentationData.title ?deck = t"
    by (simp add: or_string_def)
  have 2: "PresentationResponse.title data = None \<or> PresentationResponse.title data = Some [] \<longrightarrow>
          PresentationData.title ?deck = ascii ''Generated Presentation''"
    by (auto simp: or_string_def)
  have 3: "PresentationResponse.slides data = Some xs \<longrightarrow> PresentationData.slides ?deck = xs"
    "PresentationResponse.slides data = None \<longrightarrow> PresentationData.slides ?deck = []"
    by (simp_all add: or_array_def)
  have 4: "slide_count data = Some n \<longrightarrow> total_slides ?deck = n"
    "slide_count data = None \<longrightarrow> total_slides ?deck = 0"
    by (simp_all add: or_number_def)
  have 5: "theme ?deck = ascii ''professional''"
    by simp
  have 6: "presentation_url data = Some u \<and> u \<noteq> [] \<longrightarrow> or_absent (presentation_url data) = Some u"
    "presentation_url data = None \<or> presentation_url data = Some [] \<longrightarrow>
       or_absent (presentation_url data) = None"
    by (auto simp: or_absent_def)
  have 7: "fallback_used data = Some b \<longrightarrow> or_boolean (fallback_used data) False = b"
    "fallback_used data = None \<longrightarrow> \<not> or_boolean (fallback_used data) False"
    by (simp_all add: or_boolean_def)
  show ?thesis
    unfolding u f by (intro exI [of _ ?deck] conjI p 1 2 3 4 5 6 7)
qed

text \<open>
  A successful response with a title, one slide and the count 1.
\<close>

theorem success_builds_deck_witness:
  "active loaded_session
   \<and> answering (Resolved (response_of ''success'' None (Some [slide_intro]) (Some 1) (Some (ascii ''Plan''))))
        (postedBody initial)
       = Resolved (response_of ''success'' None (Some [slide_intro]) (Some 1) (Some (ascii ''Plan'')))
   \<and> status (response_of ''success'' None (Some [slide_intro]) (Some 1) (Some (ascii ''Plan'')))
       = Some (ascii ''success'')
   \<and> presentation (fst (generatePresentation loaded_session
        (answering (Resolved (response_of ''success'' None (Some [slide_intro]) (Some 1) (Some (ascii ''Plan'')))))
        initial))
       = Some \<lparr>PresentationData.title = ascii ''Plan'', PresentationData.slides = [slide_intro],
               total_slides = 1, theme = ascii ''professional''\<rparr>
   \<and> presentationUrl (fst (generatePresentation loaded_session
        (answering (Resolved (response_of ''success'' None (Some [slide_intro]) (Some 1) (Some (ascii ''Plan'')))))
        initial)) = None
   \<and> \<not> fallbackUsed (fst (generatePresentation loaded_session
        (answering (Resolved (response_of ''success'' None (Some [slide_intro]) (Some 1) (Some (ascii ''Plan'')))))
        initial))"
proof -
  have a: "active loaded_session"
    by (simp add: loaded_session_def)
  have b: "answering (Resolved (response_of ''success'' None (Some [slide_intro]) (Some 1) (Some (ascii ''Plan''))))
        (postedBody initial)
       = Resolved (response_of ''success'' None (Some [slide_intro]) (Some 1) (Some (ascii ''Plan'')))"
    by (simp add: answering_def)
  have c: "status (response_of ''success'' None (Some [slide_intro]) (Some 1) (Some (ascii ''Plan'')))
       = Some (ascii ''success'')"
    by (simp add: response_of_def)
  have d: "ascii ''Plan'' \<noteq> []"
    by (simp add: ascii_def)
  from success_builds_deck [of loaded_session
      "answering (Resolved (response_of ''success'' None (Some [slide_intro]) (Some 1) (Some (ascii ''Plan''))))"
      initial "response_of ''success'' None (Some [slide_intro]) (Some 1) (Some (ascii ''Plan''))"
      "ascii ''Plan''" "[slide_intro]" 1 _ False] a b c d
  show ?thesis
    by (auto simp: response_of_def)
qed

text \<open>
  A response whose title is present and is the empty string does not pass its title on:
  the deck gets the default title.
\<close>

theorem success_builds_deck_counterexample:
  "PresentationResponse.title (response_of ''success'' None (Some [slide_intro]) (Some 1) (Some [])) = Some []
   \<and> map_option PresentationData.title (presentation (fst (generatePresentation loaded_session
        (answering (Resolved (response_of ''success'' None (Some [slide_intro]) (Some 1) (Some []))))
        initial))) = Some (ascii ''Generated Presentation'')
   \<and> ascii ''Generated Presentation'' \<noteq> []"
  by (simp add: generatePresentation_def loaded_session_def answering_def response_of_def
      or_string_def Let_def ascii_def)

subsection \<open>C8: a new deck resets the cursor\<close>

text \<open>
  C8.  Whenever a generation succeeds, the cursor is 0 afterwards and a deck is stored,
  whatever the cursor and the deck were before; and whenever the handler leaves a stored
  presentation other than the one it found, the cursor is 0.
\<close>

theorem replacement_resets_cursor:
  "(active sess \<and> succeeded (service (postedBody s)) \<longrightarrow>
      currentSlide (fst (generatePresentation sess service s)) = 0
      \<and> presentation (fst (generatePresentation sess service s)) \<noteq> None)
   \<and> (presentation (fst (generatePresentation sess service s)) \<noteq> presentation s \<longrightarrow>
      currentSlide (fst (generatePresentation sess service s)) = 0)"
proof -
  have 1: "currentSlide (fst (generatePresentation sess service s)) = 0
      \<and> presentation (fst (generatePresentation sess service s)) \<noteq> None"
    if "active sess" "succeeded (service (postedBody s))"
  proof -
    from that(2) obtain data where "service (postedBody s) = Resolved data"
      and "status data = Some (ascii ''success'')"
      by (auto simp: succeeded_def split: fetch_result.splits)
    with that(1) show ?thesis
      by (simp add: generate_success)
  qed
  have 2: "presentation (fst (generatePresentation sess service s)) = presentation s"
    if "\<not> (active sess \<and> succeeded (service (postedBody s)))"
  proof (cases "active sess")
    case True
    with that have "fst (generatePresentation sess service s) = s\<lparr>isGenerating := False\<rparr>"
      by (simp add: generate_failed)
    then show ?thesis by simp
  next
    case False
    then show ?thesis by (simp add: generate_inactive)
  qed
  from 1 2 show ?thesis by blast
qed

text \<open>
  A deck of six slides shown at cursor 5, its last slide, is replaced by a deck of two
  slides: the cursor is 0.
\<close>

theorem replacement_resets_cursor_witness:
  "active loaded_session
   \<and> succeeded (answering (Resolved (response_of ''success'' None (Some [slide_intro, slide_bare]) (Some 2) None))
        (postedBody (showing (deck_of (replicate 6 slide_intro) 6) 5)))
   \<and> currentSlide (showing (deck_of (replicate 6 slide_intro) 6) 5) = 5
   \<and> currentSlide (fst (generatePresentation loaded_session
        (answering (Resolved (response_of ''success'' None (Some [slide_intro, slide_bare]) (Some 2) None)))
        (showing (deck_of (replicate 6 slide_intro) 6) 5))) = 0"
proof -
  have a: "active loaded_session"
    by (simp add: loaded_session_def)
  have b: "succeeded (answering (Resolved (response_of ''success'' None (Some [slide_intro, slide_bare]) (Some 2) None))
        (postedBody (showing (deck_of (replicate 6 slide_intro) 6) 5)))"
    by (simp add: succeeded_def answering_def response_of_def)
  have c: "currentSlide (showing (deck_of (replicate 6 slide_intro) 6) 5) = 5"
    by (simp add: showing_def)
  from replacement_resets_cursor [of loaded_session
      "answering (Resolved (response_of ''success'' None (Some [slide_intro, slide_bare]) (Some 2) None))"
      "showing (deck_of (replicate 6 slide_intro) 6) 5"] a b c
  show ?thesis by blast
qed

subsection \<open>C9: no generation without a document session\<close>

text \<open>
  C9.  When no document session is active, a generation attempt shows the notice
  \<^verbatim>\<open>Please upload a PDF document first\<close> and nothing else: no request is posted, and
  the whole state is as it was.
\<close>

theorem no_session_short_circuits:
  assumes "\<not> active sess"
  shows "generatePresentation sess service s =
           (s, [ToastError (ascii ''Please upload a PDF document first'')])
       \<and> (\<forall>u b. Fetch u b \<notin> set (snd (generatePresentation sess service s)))"
  using assms by (simp add: generate_inactive)

text \<open>
  The initial component without a session.
\<close>

theorem no_session_short_circuits_witness:
  "\<not> active no_session
   \<and> generatePresentation no_session (answering (Resolved quota_exceeded)) initial =
       (initial, [ToastError (ascii ''Please upload a PDF document first'')])"
proof -
  have a: "\<not> active no_session"
    by (simp add: no_session_def)
  from no_session_short_circuits [OF a, of "answering (Resolved quota_exceeded)" initial] a
  show ?thesis by simp
qed

subsection \<open>C10: the session identifier of the request\<close>

text \<open>
  C10.  The request's \<^verbatim>\<open>session_id\<close> is the constant \<^verbatim>\<open>default\<close> for every form;
  every body that the handler posts carries it; and two active sessions, whatever their
  documents, lead to the same request, state and effects.
\<close>

theorem session_id_is_default:
  "session_id (requestData fd) = ascii ''default''
   \<and> (Fetch u b \<in> set (snd (generatePresentation sess service s)) \<longrightarrow>
        map_of b (ascii ''session_id'') = Some (JString (ascii ''default'')))
   \<and> (active sess \<and> active sess' \<longrightarrow>
        generatePresentation sess service s = generatePresentation sess' service s)"
proof -
  have 1: "session_id (requestData fd) = ascii ''default''" for fd
    by (simp add: requestData_def)
  have 2: "map_of b (ascii ''session_id'') = Some (JString (ascii ''default''))"
    if "Fetch u b \<in> set (snd (generatePresentation sess service s))"
  proof (cases "active sess")
    case True
    from generate_fetch_first [OF True, of service s] that have "b = postedBody s"
      by auto
    then show ?thesis
      by (simp add: postedBody_def JSON_stringify_def 1)
  next
    case False
    with that show ?thesis
      by (simp add: generate_inactive)
  qed
  have 3: "generatePresentation sess service s = generatePresentation sess' service s"
    if "active sess" "active sess'"
    using that by (simp add: generatePresentation_def)
  from 1 2 3 show ?thesis by blast
qed

text \<open>
  Two sessions with different documents.
\<close>

theorem session_id_is_default_witness:
  "active loaded_session \<and> active other_session
   \<and> loaded_session \<noteq> other_session
   \<and> generatePresentation loaded_session (answering (Rejected network_down)) initial =
       generatePresentation other_session (answering (Rejected network_down)) initial
   \<and> Fetch (ascii ''/api/generate-presentation'') (postedBody initial)
       \<in> set (snd (generatePresentation loaded_session (answering (Rejected network_down)) initial))
   \<and> map_of (postedBody initial) (ascii ''session_id'') = Some (JString (ascii ''default''))"
proof -
  have a: "active loaded_session" "active other_session" "loaded_session \<noteq> other_session"
    by (simp_all add: loaded_session_def other_session_def ascii_def)
  have b: "Fetch (ascii ''/api/generate-presentation'') (postedBody initial)
       \<in> set (snd (generatePresentation loaded_session (answering (Rejected network_down)) initial))"
    by (simp add: generatePresentation_def loaded_session_def answering_def postedBody_def Let_def)
  from session_id_is_default [of _ "ascii ''/api/generate-presentation''" "postedBody initial"
      loaded_session "answering (Rejected network_down)" initial other_session] a b
  show ?thesis by blast
qed

end
